theory Spec2Isabelle
  imports Main "HOL-Library.Multiset"
begin

section \<open>The filter evaluator\<close>

text \<open>
  The evaluator works on compiled regular expressions. Go's \<open>regexp\<close> package is a
  library outside the sources, so the type of a compiled expression is a type variable
  \<open>'re\<close> and the method \<open>re.MatchString(name)\<close> is a parameter
  \<open>ms :: 're \<Rightarrow> string \<Rightarrow> bool\<close> of every function that calls it. A Go slice
  \<open>[]*regexp.Regexp\<close> is a list of such values; the loaders only ever store the
  non-nil result of a successful \<open>regexp.Compile\<close>.
\<close>

fun matchesInclude :: "('re \<Rightarrow> string \<Rightarrow> bool) \<Rightarrow> string \<Rightarrow> 're list \<Rightarrow> bool" where
  "matchesInclude ms name [] = False"
| "matchesInclude ms name (re # includeREs) =
     (if ms re name then True else matchesInclude ms name includeREs)"

fun matchesExclude :: "('re \<Rightarrow> string \<Rightarrow> bool) \<Rightarrow> string \<Rightarrow> 're list \<Rightarrow> bool" where
  "matchesExclude ms name [] = True"
| "matchesExclude ms name (re # excludeREs) =
     (if ms re name then False else matchesExclude ms name excludeREs)"

definition ShouldInclude ::
  "('re \<Rightarrow> string \<Rightarrow> bool) \<Rightarrow> string \<Rightarrow> 're list \<Rightarrow> 're list \<Rightarrow> bool" where
  "ShouldInclude ms name includeREs excludeNamesREs =
     (if length includeREs > 0 then
        (if matchesInclude ms name includeREs
         then matchesExclude ms name excludeNamesREs
         else False)
      else if length excludeNamesREs > 0 then
        matchesExclude ms name excludeNamesREs
      else True)"

subsection \<open>A literal-text engine for concrete runs\<close>

text \<open>
  For concrete runs the regular-expression parameters are instantiated with a small
  engine for literal patterns. A pattern free of the metacharacters of Go's syntax
  denotes an unanchored, case-sensitive substring search, which is what
  \<open>regexp.Compile\<close> and \<open>MatchString\<close> make of such a pattern; the compiled form is
  the text itself. The engine rejects every pattern that contains a metacharacter;
  the concrete runs below rely on that only for the pattern \<open>(\<close>, which Go rejects as
  well (missing closing parenthesis).
\<close>

fun isPrefix :: "string \<Rightarrow> string \<Rightarrow> bool" where
  "isPrefix [] name = True"
| "isPrefix (c # cs) [] = False"
| "isPrefix (c # cs) (d # ds) = (if c = d then isPrefix cs ds else False)"

fun lit_match :: "string \<Rightarrow> string \<Rightarrow> bool" where
  "lit_match re [] = isPrefix re []"
| "lit_match re (d # ds) = (if isPrefix re (d # ds) then True else lit_match re ds)"

definition metachars :: "string" where
  "metachars = [CHR 0x5C, CHR ''.'', CHR ''+'', CHR ''*'', CHR ''?'', CHR ''('', CHR '')'',
                CHR ''|'', CHR ''['', CHR '']'', CHR ''{'', CHR ''}'', CHR ''^'', CHR ''$'']"

section \<open>The configuration loaders\<close>

subsection \<open>Errors and the world outside the sources\<close>

text \<open>
  A Go \<open>error\<close> is an opaque value carrying a message. The loaders create no errors of
  their own: they hand on the error some library call returned.
\<close>

datatype error = Error string

text \<open>
  A parsed YAML document: a scalar with its text (quotes already removed), a sequence,
  or a mapping with its entries in document order. Null values, anchors and tags are
  outside the model.
\<close>

datatype node = Scalar string | Sequence "node list" | Mapping "(string \<times> node) list"

text \<open>
  The library calls of the loaders are the fields of an environment: \<open>filepath.Abs\<close>
  (which depends on the working directory), \<open>ioutil.ReadFile\<close> (which depends on the
  file system), the parser inside \<open>yaml.Unmarshal\<close> that turns bytes into a document,
  \<open>regexp.Compile\<close> and the method \<open>MatchString\<close>. Each returns an error or a value.
\<close>

record 're env =
  filepath_Abs :: "string \<Rightarrow> error + string"
  ioutil_ReadFile :: "string \<Rightarrow> error + string"
  yaml_parse :: "string \<Rightarrow> error + node"
  regexp_Compile :: "string \<Rightarrow> error + 're"
  MatchString :: "'re \<Rightarrow> string \<Rightarrow> bool"

subsection \<open>The configuration types\<close>

text \<open>
  The sources declare the same three-level shape three times, with the same yaml keys:
  \<open>RawConfig\<close> / \<open>rawResourceType\<close> / \<open>rawFilterRule\<close> with leaves of type \<open>string\<close>,
  \<open>Config\<close> / \<open>ResourceType\<close> / \<open>FilterRule\<close> of \<open>config.go\<close> with leaves of type
  \<open>*regexp.Regexp\<close>, and the \<open>Config\<close> of the \<open>UnmarshalText\<close> variant with leaves of
  type \<open>Expression\<close>. The records below are that shape, with the leaf type \<open>'p\<close> as a
  parameter. A nil slice is the empty list.
\<close>

record 'p FilterRule =
  NamesRE :: "'p list"

record 'p ResourceType =
  IncludeRule :: "'p FilterRule"
  ExcludeRule :: "'p FilterRule"

record 'p Config =
  S3 :: "'p ResourceType"
  IAMUsers :: "'p ResourceType"

type_synonym rawNamesRE = "string list"
type_synonym RawConfig = "string Config"

record 're Expression =
  RE :: 're

text \<open>The zero values that \<open>var configObj Config\<close> and \<open>RawConfig{}\<close> create.\<close>

definition zeroFilterRule :: "'p FilterRule" where
  "zeroFilterRule = \<lparr>NamesRE = []\<rparr>"

definition zeroResourceType :: "'p ResourceType" where
  "zeroResourceType = \<lparr>IncludeRule = zeroFilterRule, ExcludeRule = zeroFilterRule\<rparr>"

definition zeroConfig :: "'p Config" where
  "zeroConfig = \<lparr>S3 = zeroResourceType, IAMUsers = zeroResourceType\<rparr>"

text \<open>
  \<open>GetConfig\<close> of \<open>config.go\<close> takes the addresses of the four \<open>NamesRE\<close> fields of
  \<open>configObj\<close>. An address is modelled by the name of the field it points to, read
  with \<open>getSlot\<close> and written with \<open>setSlot\<close>.
\<close>

datatype slot = S3_IncludeRule | S3_ExcludeRule | IAMUsers_IncludeRule | IAMUsers_ExcludeRule

fun getSlot :: "'p Config \<Rightarrow> slot \<Rightarrow> 'p list" where
  "getSlot c S3_IncludeRule = NamesRE (IncludeRule (S3 c))"
| "getSlot c S3_ExcludeRule = NamesRE (ExcludeRule (S3 c))"
| "getSlot c IAMUsers_IncludeRule = NamesRE (IncludeRule (IAMUsers c))"
| "getSlot c IAMUsers_ExcludeRule = NamesRE (ExcludeRule (IAMUsers c))"

fun setSlot :: "slot \<Rightarrow> 'p list \<Rightarrow> 'p Config \<Rightarrow> 'p Config" where
  "setSlot S3_IncludeRule ps c =
     c\<lparr>S3 := (S3 c)\<lparr>IncludeRule := (IncludeRule (S3 c))\<lparr>NamesRE := ps\<rparr>\<rparr>\<rparr>"
| "setSlot S3_ExcludeRule ps c =
     c\<lparr>S3 := (S3 c)\<lparr>ExcludeRule := (ExcludeRule (S3 c))\<lparr>NamesRE := ps\<rparr>\<rparr>\<rparr>"
| "setSlot IAMUsers_IncludeRule ps c =
     c\<lparr>IAMUsers := (IAMUsers c)\<lparr>IncludeRule := (IncludeRule (IAMUsers c))\<lparr>NamesRE := ps\<rparr>\<rparr>\<rparr>"
| "setSlot IAMUsers_ExcludeRule ps c =
     c\<lparr>IAMUsers := (IAMUsers c)\<lparr>ExcludeRule := (ExcludeRule (IAMUsers c))\<lparr>NamesRE := ps\<rparr>\<rparr>\<rparr>"

record association =
  CompiledREs :: slot
  RawREs :: rawNamesRE

subsection \<open>Decoding a YAML document into the configuration types\<close>

text \<open>
  Modelled from the spec: the decoder of \<open>yaml.Unmarshal\<close> (package
  \<open>gopkg.in/yaml.v2\<close>), which is not part of the sources. The spec fixes the shape of
  the input (a category key \<open>s3\<close> or \<open>IAMUsers\<close>, below it \<open>include\<close> and \<open>exclude\<close>,
  below each \<open>names_regex\<close> with a list of strings), says that missing \<open>include\<close>,
  \<open>exclude\<close> or \<open>names_regex\<close> keys default to an empty list, that unknown keys are
  ignored, and that a document of the wrong types is an error. The keys are those of
  the \<open>yaml:"..."\<close> tags of the struct declarations. A field whose key is missing
  keeps the zero value of the destination.

  The parameter \<open>leaf\<close> is what the decoder does with the text of one scalar of a
  \<open>names_regex\<close> list: for a \<open>string\<close> leaf it stores the text (\<open>Inr\<close>); for an
  \<open>Expression\<close> leaf it calls the method \<open>UnmarshalText\<close> with the text, as the comment
  on that method says, and fails with the error the method returns. The decoder
  visits the four lists in the order S3 include, S3 exclude, IAMUsers include,
  IAMUsers exclude; which of several errors is reported is no part of any claim below.
  Of two entries with the same key the first is used.
\<close>

text \<open>Modelled from the spec: the error for a document of the wrong types.\<close>

definition typeError :: error where
  "typeError = Error ''yaml: unmarshal errors''"

text \<open>
  Modelled from the spec: the items of a \<open>names_regex\<close> list are scalars, each handed
  to \<open>leaf\<close>; the first failure ends the decoding.
\<close>

fun decodeItems :: "(string \<Rightarrow> error + 'p) \<Rightarrow> node list \<Rightarrow> error + 'p list" where
  "decodeItems leaf [] = Inr []"
| "decodeItems leaf (Scalar text # items) =
     (case leaf text of
        Inl err \<Rightarrow> Inl err
      | Inr p \<Rightarrow> (case decodeItems leaf items of
                    Inl err \<Rightarrow> Inl err
                  | Inr ps \<Rightarrow> Inr (p # ps)))"
| "decodeItems leaf (Sequence v # items) = Inl typeError"
| "decodeItems leaf (Mapping v # items) = Inl typeError"

text \<open>Modelled from the spec: the value of \<open>names_regex\<close> is a sequence.\<close>

fun decodeNamesRE :: "(string \<Rightarrow> error + 'p) \<Rightarrow> node \<Rightarrow> error + 'p list" where
  "decodeNamesRE leaf (Sequence items) = decodeItems leaf items"
| "decodeNamesRE leaf (Scalar v) = Inl typeError"
| "decodeNamesRE leaf (Mapping v) = Inl typeError"

text \<open>
  Modelled from the spec: a field whose key is missing keeps the zero value; a field
  whose key is present is decoded from the value.
\<close>

fun decodeField :: "(node \<Rightarrow> error + 'a) \<Rightarrow> 'a \<Rightarrow> node option \<Rightarrow> error + 'a" where
  "decodeField dec zero None = Inr zero"
| "decodeField dec zero (Some n) = dec n"

text \<open>
  Modelled from the spec: an \<open>include\<close> or \<open>exclude\<close> section is a mapping with the
  optional key \<open>names_regex\<close>.
\<close>

fun decodeFilterRule :: "(string \<Rightarrow> error + 'p) \<Rightarrow> node \<Rightarrow> error + 'p FilterRule" where
  "decodeFilterRule leaf (Mapping kvs) =
     (case decodeField (decodeNamesRE leaf) [] (map_of kvs ''names_regex'') of
        Inl err \<Rightarrow> Inl err
      | Inr ps \<Rightarrow> Inr \<lparr>NamesRE = ps\<rparr>)"
| "decodeFilterRule leaf (Scalar v) = Inl typeError"
| "decodeFilterRule leaf (Sequence v) = Inl typeError"

text \<open>
  Modelled from the spec: a category is a mapping with the optional keys \<open>include\<close>
  and \<open>exclude\<close>.
\<close>

fun decodeResourceType :: "(string \<Rightarrow> error + 'p) \<Rightarrow> node \<Rightarrow> error + 'p ResourceType" where
  "decodeResourceType leaf (Mapping kvs) =
     (case decodeField (decodeFilterRule leaf) zeroFilterRule (map_of kvs ''include'') of
        Inl err \<Rightarrow> Inl err
      | Inr inc \<Rightarrow>
          (case decodeField (decodeFilterRule leaf) zeroFilterRule (map_of kvs ''exclude'') of
             Inl err \<Rightarrow> Inl err
           | Inr exc \<Rightarrow> Inr \<lparr>IncludeRule = inc, ExcludeRule = exc\<rparr>))"
| "decodeResourceType leaf (Scalar v) = Inl typeError"
| "decodeResourceType leaf (Sequence v) = Inl typeError"

text \<open>
  Modelled from the spec: the document is a mapping with the optional keys \<open>s3\<close> and
  \<open>IAMUsers\<close>.
\<close>

fun decodeConfig :: "(string \<Rightarrow> error + 'p) \<Rightarrow> node \<Rightarrow> error + 'p Config" where
  "decodeConfig leaf (Mapping kvs) =
     (case decodeField (decodeResourceType leaf) zeroResourceType (map_of kvs ''s3'') of
        Inl err \<Rightarrow> Inl err
      | Inr s3 \<Rightarrow>
          (case decodeField (decodeResourceType leaf) zeroResourceType (map_of kvs ''IAMUsers'') of
             Inl err \<Rightarrow> Inl err
           | Inr iam \<Rightarrow> Inr \<lparr>S3 = s3, IAMUsers = iam\<rparr>))"
| "decodeConfig leaf (Scalar v) = Inl typeError"
| "decodeConfig leaf (Sequence v) = Inl typeError"

text \<open>
  Modelled from the spec: \<open>yaml.Unmarshal(data, &out)\<close> for a destination \<open>out\<close> of
  one of the configuration types that holds its zero value: parse, then decode.
\<close>

definition yaml_Unmarshal ::
  "'re env \<Rightarrow> (string \<Rightarrow> error + 'p) \<Rightarrow> string \<Rightarrow> error + 'p Config" where
  "yaml_Unmarshal env leaf data =
     (case yaml_parse env data of
        Inl err \<Rightarrow> Inl err
      | Inr doc \<Rightarrow> decodeConfig leaf doc)"

text \<open>
  Modelled from the spec: decoding a document into a destination of type \<open>string\<close>
  accepts a scalar (wrong types are an error).
\<close>

fun decodeString :: "node \<Rightarrow> error + string" where
  "decodeString (Scalar text) = Inr text"
| "decodeString (Sequence v) = Inl typeError"
| "decodeString (Mapping v) = Inl typeError"

text \<open>
  Modelled from the spec: \<open>yaml.Unmarshal(data, &pattern)\<close> for a destination of type
  \<open>string\<close>: parse, then decode.
\<close>

definition yaml_Unmarshal_string :: "'re env \<Rightarrow> string \<Rightarrow> error + string" where
  "yaml_Unmarshal_string env data =
     (case yaml_parse env data of
        Inl err \<Rightarrow> Inl err
      | Inr doc \<Rightarrow> decodeString doc)"

subsection \<open>The loader of \<open>config.go\<close>\<close>

text \<open>
  \<open>appendRegex\<close> appends to the slice behind the pointer \<open>configNamesRE\<close>: the model
  takes the slice and returns it as the call leaves it, next to the returned error
  (\<open>None\<close> for \<open>nil\<close>).
\<close>

fun appendRegex ::
  "'re env \<Rightarrow> 're list \<Rightarrow> rawNamesRE \<Rightarrow> 're list \<times> error option" where
  "appendRegex env configNamesRE [] = (configNamesRE, None)"
| "appendRegex env configNamesRE (pattern # patterns) =
     (case regexp_Compile env pattern of
        Inl err \<Rightarrow> (configNamesRE, Some err)
      | Inr re \<Rightarrow> appendRegex env (configNamesRE @ [re]) patterns)"

text \<open>
  The loop of \<open>GetConfig\<close> over the associations: it returns \<open>configObj\<close> as the loop
  leaves it, and the error that made it stop.
\<close>

fun GetConfig_loop ::
  "'re env \<Rightarrow> 're Config \<Rightarrow> association list \<Rightarrow> 're Config \<times> error option" where
  "GetConfig_loop env configObj [] = (configObj, None)"
| "GetConfig_loop env configObj (a # associations) =
     (case appendRegex env (getSlot configObj (CompiledREs a)) (RawREs a) of
        (res, Some err) \<Rightarrow> (setSlot (CompiledREs a) res configObj, Some err)
      | (res, None) \<Rightarrow> GetConfig_loop env (setSlot (CompiledREs a) res configObj) associations)"

text \<open>
  \<open>GetConfig\<close> returns the pair \<open>(*Config, error)\<close>; \<open>None\<close> is \<open>nil\<close> in either
  component.
\<close>

definition GetConfig :: "'re env \<Rightarrow> string \<Rightarrow> 're Config option \<times> error option" where
  "GetConfig env filePath =
     (case filepath_Abs env filePath of
        Inl err \<Rightarrow> (None, Some err)
      | Inr absolutePath \<Rightarrow>
     (case ioutil_ReadFile env absolutePath of
        Inl err \<Rightarrow> (None, Some err)
      | Inr yamlFile \<Rightarrow>
     (case yaml_Unmarshal env Inr yamlFile of
        Inl err \<Rightarrow> (None, Some err)
      | Inr rawConfig \<Rightarrow>
     (let associations =
        [\<lparr>CompiledREs = S3_IncludeRule, RawREs = NamesRE (IncludeRule (S3 rawConfig))\<rparr>,
         \<lparr>CompiledREs = S3_ExcludeRule, RawREs = NamesRE (ExcludeRule (S3 rawConfig))\<rparr>,
         \<lparr>CompiledREs = IAMUsers_IncludeRule, RawREs = NamesRE (IncludeRule (IAMUsers rawConfig))\<rparr>,
         \<lparr>CompiledREs = IAMUsers_ExcludeRule, RawREs = NamesRE (ExcludeRule (IAMUsers rawConfig))\<rparr>]
      in (case GetConfig_loop env zeroConfig associations of
            (configObj, Some err) \<Rightarrow> (None, Some err)
          | (configObj, None) \<Rightarrow> (Some configObj, None))))))"

subsection \<open>The loader that compiles during unmarshalling\<close>

text \<open>
  \<open>UnmarshalText\<close> sets the receiver only when it returns nil, so the model returns
  either the error or the new \<open>Expression\<close>. It decodes the text it is given as a YAML
  document of its own before it compiles the result.
\<close>

definition UnmarshalText :: "'re env \<Rightarrow> string \<Rightarrow> error + 're Expression" where
  "UnmarshalText env data =
     (case yaml_Unmarshal_string env data of
        Inl err \<Rightarrow> Inl err
      | Inr pattern \<Rightarrow>
          (case regexp_Compile env pattern of
             Inl err \<Rightarrow> Inl err
           | Inr re \<Rightarrow> Inr \<lparr>RE = re\<rparr>))"

definition GetConfig_UnmarshalText ::
  "'re env \<Rightarrow> string \<Rightarrow> 're Expression Config option \<times> error option" where
  "GetConfig_UnmarshalText env filePath =
     (case filepath_Abs env filePath of
        Inl err \<Rightarrow> (None, Some err)
      | Inr absolutePath \<Rightarrow>
     (case ioutil_ReadFile env absolutePath of
        Inl err \<Rightarrow> (None, Some err)
      | Inr yamlFile \<Rightarrow>
     (case yaml_Unmarshal env (UnmarshalText env) yamlFile of
        Inl err \<Rightarrow> (None, Some err)
      | Inr configObj \<Rightarrow> (Some configObj, None))))"

section \<open>Documents, their rule slots, and a concrete environment\<close>

subsection \<open>Well-formed documents\<close>

text \<open>
  The notions the claims about input files use. \<open>child\<close> looks a key up in a mapping.
  \<open>slotNode\<close> is the \<open>names_regex\<close> node of a rule slot, if the category key, the
  \<open>include\<close> or \<open>exclude\<close> key and the \<open>names_regex\<close> key are all present; the slot is
  omitted when one of them is missing. \<open>slotTexts\<close> are the pattern texts the file
  gives for a slot. A document is well-formed when it has the shape of the input file
  format: mappings down to \<open>names_regex\<close>, whose value is a sequence of scalars.
\<close>

fun child :: "node \<Rightarrow> string \<Rightarrow> node option" where
  "child (Mapping kvs) key = map_of kvs key"
| "child (Scalar v) key = None"
| "child (Sequence v) key = None"

fun categoryKey :: "slot \<Rightarrow> string" where
  "categoryKey S3_IncludeRule = ''s3''"
| "categoryKey S3_ExcludeRule = ''s3''"
| "categoryKey IAMUsers_IncludeRule = ''IAMUsers''"
| "categoryKey IAMUsers_ExcludeRule = ''IAMUsers''"

fun directionKey :: "slot \<Rightarrow> string" where
  "directionKey S3_IncludeRule = ''include''"
| "directionKey S3_ExcludeRule = ''exclude''"
| "directionKey IAMUsers_IncludeRule = ''include''"
| "directionKey IAMUsers_ExcludeRule = ''exclude''"

fun ruleNode :: "node option \<Rightarrow> string \<Rightarrow> node option" where
  "ruleNode None key = None"
| "ruleNode (Some n) key = child n key"

definition slotNode :: "node \<Rightarrow> slot \<Rightarrow> node option" where
  "slotNode doc s =
     ruleNode (ruleNode (child doc (categoryKey s)) (directionKey s)) ''names_regex''"

definition slotOmitted :: "node \<Rightarrow> slot \<Rightarrow> bool" where
  "slotOmitted doc s = (slotNode doc s = None)"

fun scalarTexts :: "node list \<Rightarrow> string list" where
  "scalarTexts [] = []"
| "scalarTexts (Scalar text # items) = text # scalarTexts items"
| "scalarTexts (Sequence v # items) = scalarTexts items"
| "scalarTexts (Mapping v # items) = scalarTexts items"

fun namesTexts :: "node option \<Rightarrow> string list" where
  "namesTexts None = []"
| "namesTexts (Some (Sequence items)) = scalarTexts items"
| "namesTexts (Some (Scalar v)) = []"
| "namesTexts (Some (Mapping v)) = []"

definition slotTexts :: "node \<Rightarrow> slot \<Rightarrow> string list" where
  "slotTexts doc s = namesTexts (slotNode doc s)"

fun isScalar :: "node \<Rightarrow> bool" where
  "isScalar (Scalar text) = True"
| "isScalar (Sequence v) = False"
| "isScalar (Mapping v) = False"

fun wfField :: "(node \<Rightarrow> bool) \<Rightarrow> node option \<Rightarrow> bool" where
  "wfField ok None = True"
| "wfField ok (Some n) = ok n"

fun wfNamesRE :: "node \<Rightarrow> bool" where
  "wfNamesRE (Sequence items) = list_all isScalar items"
| "wfNamesRE (Scalar v) = False"
| "wfNamesRE (Mapping v) = False"

fun wfFilterRule :: "node \<Rightarrow> bool" where
  "wfFilterRule (Mapping kvs) = wfField wfNamesRE (map_of kvs ''names_regex'')"
| "wfFilterRule (Scalar v) = False"
| "wfFilterRule (Sequence v) = False"

fun wfResourceType :: "node \<Rightarrow> bool" where
  "wfResourceType (Mapping kvs) =
     (wfField wfFilterRule (map_of kvs ''include'')
      \<and> wfField wfFilterRule (map_of kvs ''exclude''))"
| "wfResourceType (Scalar v) = False"
| "wfResourceType (Sequence v) = False"

fun wfDocument :: "node \<Rightarrow> bool" where
  "wfDocument (Mapping kvs) =
     (wfField wfResourceType (map_of kvs ''s3'')
      \<and> wfField wfResourceType (map_of kvs ''IAMUsers''))"
| "wfDocument (Scalar v) = False"
| "wfDocument (Sequence v) = False"

text \<open>The configuration whose four slots hold the given lists.\<close>

definition mkConfig :: "(slot \<Rightarrow> 'p list) \<Rightarrow> 'p Config" where
  "mkConfig f =
     \<lparr>S3 = \<lparr>IncludeRule = \<lparr>NamesRE = f S3_IncludeRule\<rparr>,
            ExcludeRule = \<lparr>NamesRE = f S3_ExcludeRule\<rparr>\<rparr>,
      IAMUsers = \<lparr>IncludeRule = \<lparr>NamesRE = f IAMUsers_IncludeRule\<rparr>,
                  ExcludeRule = \<lparr>NamesRE = f IAMUsers_ExcludeRule\<rparr>\<rparr>\<rparr>"

definition allPatterns :: "'p Config \<Rightarrow> 'p list" where
  "allPatterns c =
     getSlot c S3_IncludeRule @ getSlot c S3_ExcludeRule
     @ getSlot c IAMUsers_IncludeRule @ getSlot c IAMUsers_ExcludeRule"

subsection \<open>Compiling the patterns of a file\<close>

text \<open>
  Notions for stating what the loaders return: whether \<open>regexp.Compile\<close> accepts a
  pattern, the expression it returns, and the error of the first pattern of a list
  that it rejects.
\<close>

definition compiles :: "'re env \<Rightarrow> string \<Rightarrow> bool" where
  "compiles env pattern = (\<not> isl (regexp_Compile env pattern))"

definition compiled :: "'re env \<Rightarrow> string \<Rightarrow> 're" where
  "compiled env pattern = projr (regexp_Compile env pattern)"

definition firstError :: "'re env \<Rightarrow> string list \<Rightarrow> error option" where
  "firstError env patterns =
     map_option (\<lambda>p. projl (regexp_Compile env p)) (find (\<lambda>p. \<not> compiles env p) patterns)"

subsection \<open>A concrete environment\<close>

text \<open>
  The environment of the concrete runs. Regular expressions are those of the
  literal-text engine. The working directory is \<open>/work\<close>. The file system holds four
  files; the parser is tabulated on their contents and on the pattern texts that occur
  in them, with the document a YAML parser returns for each. A text outside the table
  is reported as an error; no run below reaches one.
\<close>

definition lit_compile :: "string \<Rightarrow> error + string" where
  "lit_compile pattern =
     (if list_ex (\<lambda>c. c \<in> set metachars) pattern
      then Inl (Error ''error parsing regexp'')
      else Inr pattern)"

definition text_lines :: "string list \<Rightarrow> string" where
  "text_lines ls = concat (map (\<lambda>l. l @ [CHR 0x0A]) ls)"

text \<open>A valid file: \<open>s3\<close> has no \<open>exclude\<close> section, \<open>IAMUsers\<close> has no \<open>include\<close> section.\<close>

definition valid_yaml :: string where
  "valid_yaml = text_lines
     [''s3:'',
      ''  include:'',
      ''    names_regex:'',
      ''      - prod-'',
      ''IAMUsers:'',
      ''  exclude:'',
      ''    names_regex:'',
      ''      - test-'',
      ''      - tmp'']"

definition valid_doc :: node where
  "valid_doc = Mapping
     [(''s3'', Mapping [(''include'', Mapping [(''names_regex'',
         Sequence [Scalar ''prod-''])])]),
      (''IAMUsers'', Mapping [(''exclude'', Mapping [(''names_regex'',
         Sequence [Scalar ''test-'', Scalar ''tmp''])])])]"

text \<open>A file whose last slot holds a pattern that does not compile.\<close>

definition bad_yaml :: string where
  "bad_yaml = text_lines
     [''s3:'',
      ''  include:'',
      ''    names_regex:'',
      ''      - prod-'',
      ''IAMUsers:'',
      ''  exclude:'',
      ''    names_regex:'',
      ''      - test-'',
      ''      - ('']"

definition bad_doc :: node where
  "bad_doc = Mapping
     [(''s3'', Mapping [(''include'', Mapping [(''names_regex'',
         Sequence [Scalar ''prod-''])])]),
      (''IAMUsers'', Mapping [(''exclude'', Mapping [(''names_regex'',
         Sequence [Scalar ''test-'', Scalar ''(''])])])]"

text \<open>
  A file with a quoted pattern, \<open>"@example"\<close>. The scalar's text is \<open>@example\<close>. Read
  as a YAML document of its own that text is a syntax error, since \<open>@\<close> cannot start a
  plain scalar, while as a regular expression it is a literal.
\<close>

definition quoted_yaml :: string where
  "quoted_yaml = text_lines
     [''IAMUsers:'',
      ''  exclude:'',
      ''    names_regex:'',
      ''      - '' @ [CHR 0x22] @ ''@example'' @ [CHR 0x22]]"

definition quoted_doc :: node where
  "quoted_doc = Mapping
     [(''IAMUsers'', Mapping [(''exclude'', Mapping [(''names_regex'',
         Sequence [Scalar ''@example''])])])]"

definition demo_parse :: "string \<Rightarrow> error + node" where
  "demo_parse data =
     (if data = valid_yaml then Inr valid_doc
      else if data = bad_yaml then Inr bad_doc
      else if data = quoted_yaml then Inr quoted_doc
      else if data \<in> set [''prod-'', ''test-'', ''tmp'', ''(''] then Inr (Scalar data)
      else if data = ''@example''
        then Inl (Error ''yaml: found character that cannot start any token'')
      else Inl (Error ''yaml: text outside the table''))"

definition demo_Abs :: "string \<Rightarrow> string \<Rightarrow> error + string" where
  "demo_Abs wd filePath = Inr (if isPrefix ''/'' filePath then filePath else wd @ ''/'' @ filePath)"

definition demo_ReadFile :: "string \<Rightarrow> error + string" where
  "demo_ReadFile absolutePath =
     (if absolutePath = ''/work/valid.yaml'' then Inr valid_yaml
      else if absolutePath = ''/srv/copy.yaml'' then Inr valid_yaml
      else if absolutePath = ''/work/bad.yaml'' then Inr bad_yaml
      else if absolutePath = ''/work/quoted.yaml'' then Inr quoted_yaml
      else Inl (Error ''open: no such file or directory''))"

definition demo_env :: "string env" where
  "demo_env =
     \<lparr>filepath_Abs = demo_Abs ''/work'',
      ioutil_ReadFile = demo_ReadFile,
      yaml_parse = demo_parse,
      regexp_Compile = lit_compile,
      MatchString = lit_match\<rparr>"


section \<open>Properties of the evaluator\<close>

lemma matchesInclude_iff:
  "matchesInclude ms name res = list_ex (\<lambda>re. ms re name) res"
  by (induction res) simp_all

lemma matchesExclude_iff:
  "matchesExclude ms name res = list_all (\<lambda>re. \<not> ms re name) res"
  by (induction res) simp_all

lemma ShouldInclude_sets:
  "ShouldInclude ms name inc exc =
     ((inc = [] \<or> (\<exists>re\<in>set inc. ms re name)) \<and> (\<forall>re\<in>set exc. \<not> ms re name))"
  by (cases exc) (auto simp: ShouldInclude_def matchesInclude_iff matchesExclude_iff
                        list_ex_iff list_all_iff)

text \<open>
  Claim C1. When the include list is non-empty and at least one of its patterns matches
  the name, \<open>ShouldInclude\<close> returns true exactly when no pattern of the exclude list
  matches the name: an exclude match overrides the include match.
\<close>

theorem ShouldInclude_include_match:
  assumes "includeREs \<noteq> []"
    and "\<exists>re \<in> set includeREs. ms re name"
  shows "ShouldInclude ms name includeREs excludeNamesREs
           = (\<not> (\<exists>re \<in> set excludeNamesREs. ms re name))"
  using assms by (simp add: ShouldInclude_sets)

theorem ShouldInclude_include_match_witness:
  "ShouldInclude lit_match ''prod-db'' [''prod-''] [''-tmp''] = True
   \<and> ShouldInclude lit_match ''prod-db-tmp'' [''prod-''] [''-tmp''] = False"
  using ShouldInclude_include_match [where ms = lit_match and name = "''prod-db''"
      and includeREs = "[''prod-'']" and excludeNamesREs = "[''-tmp'']"]
    ShouldInclude_include_match [where ms = lit_match and name = "''prod-db-tmp''"
      and includeREs = "[''prod-'']" and excludeNamesREs = "[''-tmp'']"]
  by simp

text \<open>
  Claim C2. When the include list is non-empty and none of its patterns matches the
  name, \<open>ShouldInclude\<close> returns false, whatever the exclude list holds.
\<close>

theorem ShouldInclude_no_include_match:
  assumes "includeREs \<noteq> []"
    and "\<forall>re \<in> set includeREs. \<not> ms re name"
  shows "ShouldInclude ms name includeREs excludeNamesREs = False"
  using assms by (simp add: ShouldInclude_sets)

theorem ShouldInclude_no_include_match_witness:
  "ShouldInclude lit_match ''dev-db'' [''prod-''] [''-tmp''] = False
   \<and> ShouldInclude lit_match ''dev-db'' [''prod-''] [''dev''] = False
   \<and> ShouldInclude lit_match ''dev-db'' [''prod-''] [] = False"
  using ShouldInclude_no_include_match [where ms = lit_match and name = "''dev-db''"
      and includeREs = "[''prod-'']" and excludeNamesREs = "[''-tmp'']"]
    ShouldInclude_no_include_match [where ms = lit_match and name = "''dev-db''"
      and includeREs = "[''prod-'']" and excludeNamesREs = "[''dev'']"]
    ShouldInclude_no_include_match [where ms = lit_match and name = "''dev-db''"
      and includeREs = "[''prod-'']" and excludeNamesREs = "[]"]
  by simp

text \<open>
  Claim C3. When the include list is empty and the exclude list is non-empty,
  \<open>ShouldInclude\<close> returns false if some exclude pattern matches the name and true
  otherwise.
\<close>

theorem ShouldInclude_only_exclude:
  assumes "excludeNamesREs \<noteq> []"
  shows "ShouldInclude ms name [] excludeNamesREs
           = (\<not> (\<exists>re \<in> set excludeNamesREs. ms re name))"
  using assms by (simp add: ShouldInclude_sets)

theorem ShouldInclude_only_exclude_witness:
  "ShouldInclude lit_match ''test-user'' [] [''test-''] = False
   \<and> ShouldInclude lit_match ''alice'' [] [''test-''] = True"
proof -
  have ne: "[''test-''] \<noteq> ([] :: string list)" by simp
  show ?thesis
    using ShouldInclude_only_exclude [OF ne, of lit_match "''test-user''"]
      ShouldInclude_only_exclude [OF ne, of lit_match "''alice''"]
    by simp
qed

text \<open>
  Claim C4. With both pattern lists empty \<open>ShouldInclude\<close> returns true for every
  name (default allow).
\<close>

theorem ShouldInclude_default_allow:
  "ShouldInclude ms name [] [] = True"
  by (simp add: ShouldInclude_def)

theorem ShouldInclude_default_allow_witness:
  "ShouldInclude lit_match ''alice'' [] [] = True"
  using ShouldInclude_default_allow [of lit_match "''alice''"] by simp

text \<open>
  Claim C7. Replacing the include list or the exclude list by a permutation of itself
  (a list with the same multiset of patterns) never changes the result of
  \<open>ShouldInclude\<close>.
\<close>

theorem ShouldInclude_permutation:
  assumes "mset includeREs' = mset includeREs"
    and "mset excludeNamesREs' = mset excludeNamesREs"
  shows "ShouldInclude ms name includeREs' excludeNamesREs'
           = ShouldInclude ms name includeREs excludeNamesREs"
proof -
  have "set includeREs' = set includeREs" "set excludeNamesREs' = set excludeNamesREs"
    using assms by (auto dest: mset_eq_setD)
  moreover have "(includeREs' = []) = (includeREs = [])"
    using assms(1) by (auto dest: mset_eq_length)
  ultimately show ?thesis
    by (simp add: ShouldInclude_sets)
qed

theorem ShouldInclude_permutation_witness:
  "ShouldInclude lit_match ''prod-db'' [''prod-'', ''stage-''] [''-tmp'', ''-old'']
     = ShouldInclude lit_match ''prod-db'' [''stage-'', ''prod-''] [''-old'', ''-tmp'']
   \<and> ShouldInclude lit_match ''prod-db'' [''stage-'', ''prod-''] [''-old'', ''-tmp'']"
proof -
  have p1: "mset [''prod-'', ''stage-''] = mset [''stage-'', ''prod-'']" by simp
  have p2: "mset [''-tmp'', ''-old''] = mset [''-old'', ''-tmp'']" by simp
  have r: "ShouldInclude lit_match ''prod-db'' [''stage-'', ''prod-''] [''-old'', ''-tmp'']"
    by (simp add: ShouldInclude_def)
  show ?thesis
    using ShouldInclude_permutation [OF p1 p2, of lit_match "''prod-db''"] r by simp
qed

text \<open>
  Claim C10. \<open>ShouldInclude\<close> is antitone in the exclude list: when every pattern of the
  exclude list \<open>E\<close> also occurs in the exclude list \<open>E'\<close> (so \<open>E'\<close> is \<open>E\<close> with further
  patterns added, in any positions) and the decision with \<open>E'\<close> is true, then the
  decision with \<open>E\<close> is true. Adding exclude patterns can turn a decision from true to
  false, never from false to true.
\<close>

theorem ShouldInclude_exclude_antitone:
  assumes "set E \<subseteq> set E'"
    and "ShouldInclude ms name includeREs E'"
  shows "ShouldInclude ms name includeREs E"
  using assms by (auto simp: ShouldInclude_sets)

theorem ShouldInclude_exclude_antitone_witness:
  "ShouldInclude lit_match ''prod-db'' [''prod-''] ([''-tmp''] @ [''-old''])
   \<and> ShouldInclude lit_match ''prod-db'' [''prod-''] [''-tmp'']
   \<and> \<not> ShouldInclude lit_match ''prod-db'' [''prod-''] ([''-tmp''] @ [''db''])"
proof -
  have s: "set [''-tmp''] \<subseteq> set ([''-tmp''] @ [''-old''])" by simp
  have r: "ShouldInclude lit_match ''prod-db'' [''prod-''] ([''-tmp''] @ [''-old''])"
    by (simp add: ShouldInclude_def)
  have n: "\<not> ShouldInclude lit_match ''prod-db'' [''prod-''] ([''-tmp''] @ [''db''])"
    by (simp add: ShouldInclude_def)
  show ?thesis
    using ShouldInclude_exclude_antitone [OF s r] r n by simp
qed

section \<open>Properties of the loader of \<open>config.go\<close>\<close>

lemma find_append_cases:
  "find P (xs @ ys) = (case find P xs of None \<Rightarrow> find P ys | Some x \<Rightarrow> Some x)"
  by (induction xs) simp_all

lemma firstError_append:
  "firstError env (ps @ qs) =
     (case firstError env ps of None \<Rightarrow> firstError env qs | Some err \<Rightarrow> Some err)"
  by (simp add: firstError_def find_append_cases split: option.splits)

lemma firstError_None_iff:
  "(firstError env ps = None) = list_all (compiles env) ps"
  by (induction ps) (simp_all add: firstError_def)

lemma firstError_Some:
  "firstError env ps = Some err \<Longrightarrow> \<exists>p \<in> set ps. regexp_Compile env p = Inl err"
  by (induction ps) (auto simp: firstError_def compiles_def split: if_splits)

lemma appendRegex_snd:
  "snd (appendRegex env acc ps) = firstError env ps"
  by (induction ps arbitrary: acc)
     (auto simp: firstError_def compiles_def split: sum.splits)

lemma appendRegex_ok:
  "list_all (compiles env) ps \<Longrightarrow>
     appendRegex env acc ps = (acc @ map (compiled env) ps, None)"
  by (induction ps arbitrary: acc)
     (auto simp: compiles_def compiled_def split: sum.splits)

lemma GetConfig_loop_snd:
  "snd (GetConfig_loop env c as) = firstError env (concat (map RawREs as))"
proof (induction as arbitrary: c)
  case Nil
  show ?case by (simp add: firstError_def)
next
  case (Cons a as)
  obtain res where ar:
    "appendRegex env (getSlot c (CompiledREs a)) (RawREs a) = (res, firstError env (RawREs a))"
    using appendRegex_snd [of env "getSlot c (CompiledREs a)" "RawREs a"]
    by (cases "appendRegex env (getSlot c (CompiledREs a)) (RawREs a)") simp
  show ?case
  proof (cases "firstError env (RawREs a)")
    case None
    with ar Cons.IH show ?thesis by (simp add: firstError_append)
  next
    case (Some err)
    with ar show ?thesis by (simp add: firstError_append)
  qed
qed

lemma GetConfig_loop_four_ok:
  assumes "list_all (compiles env) (getSlot raw S3_IncludeRule)"
    and "list_all (compiles env) (getSlot raw S3_ExcludeRule)"
    and "list_all (compiles env) (getSlot raw IAMUsers_IncludeRule)"
    and "list_all (compiles env) (getSlot raw IAMUsers_ExcludeRule)"
  shows "GetConfig_loop env zeroConfig
           [\<lparr>CompiledREs = S3_IncludeRule, RawREs = NamesRE (IncludeRule (S3 raw))\<rparr>,
            \<lparr>CompiledREs = S3_ExcludeRule, RawREs = NamesRE (ExcludeRule (S3 raw))\<rparr>,
            \<lparr>CompiledREs = IAMUsers_IncludeRule, RawREs = NamesRE (IncludeRule (IAMUsers raw))\<rparr>,
            \<lparr>CompiledREs = IAMUsers_ExcludeRule, RawREs = NamesRE (ExcludeRule (IAMUsers raw))\<rparr>]
         = (mkConfig (\<lambda>s. map (compiled env) (getSlot raw s)), None)"
  using assms
  by (simp add: appendRegex_ok zeroConfig_def zeroResourceType_def zeroFilterRule_def mkConfig_def)

lemma allPatterns_associations:
  "concat (map RawREs
           [\<lparr>CompiledREs = S3_IncludeRule, RawREs = NamesRE (IncludeRule (S3 raw))\<rparr>,
            \<lparr>CompiledREs = S3_ExcludeRule, RawREs = NamesRE (ExcludeRule (S3 raw))\<rparr>,
            \<lparr>CompiledREs = IAMUsers_IncludeRule, RawREs = NamesRE (IncludeRule (IAMUsers raw))\<rparr>,
            \<lparr>CompiledREs = IAMUsers_ExcludeRule, RawREs = NamesRE (ExcludeRule (IAMUsers raw))\<rparr>])
   = allPatterns raw"
  by (simp add: allPatterns_def)

lemma GetConfig_unmarshalled_ok:
  assumes "filepath_Abs env filePath = Inr absolutePath"
    and "ioutil_ReadFile env absolutePath = Inr yamlFile"
    and "yaml_Unmarshal env Inr yamlFile = Inr raw"
    and "list_all (compiles env) (allPatterns raw)"
  shows "GetConfig env filePath = (Some (mkConfig (\<lambda>s. map (compiled env) (getSlot raw s))), None)"
proof -
  have "list_all (compiles env) (getSlot raw S3_IncludeRule)"
    "list_all (compiles env) (getSlot raw S3_ExcludeRule)"
    "list_all (compiles env) (getSlot raw IAMUsers_IncludeRule)"
    "list_all (compiles env) (getSlot raw IAMUsers_ExcludeRule)"
    using assms(4) by (simp_all add: allPatterns_def)
  from GetConfig_loop_four_ok [OF this] assms(1-3) show ?thesis
    by (simp add: GetConfig_def)
qed

lemma GetConfig_unmarshalled_error:
  assumes "filepath_Abs env filePath = Inr absolutePath"
    and "ioutil_ReadFile env absolutePath = Inr yamlFile"
    and "yaml_Unmarshal env Inr yamlFile = Inr raw"
    and "firstError env (allPatterns raw) = Some err"
  shows "GetConfig env filePath = (None, Some err)"
proof -
  let ?as = "[\<lparr>CompiledREs = S3_IncludeRule, RawREs = NamesRE (IncludeRule (S3 raw))\<rparr>,
            \<lparr>CompiledREs = S3_ExcludeRule, RawREs = NamesRE (ExcludeRule (S3 raw))\<rparr>,
            \<lparr>CompiledREs = IAMUsers_IncludeRule, RawREs = NamesRE (IncludeRule (IAMUsers raw))\<rparr>,
            \<lparr>CompiledREs = IAMUsers_ExcludeRule, RawREs = NamesRE (ExcludeRule (IAMUsers raw))\<rparr>]"
  have "snd (GetConfig_loop env zeroConfig ?as) = Some err"
    using assms(4) GetConfig_loop_snd [of env zeroConfig ?as]
    by (simp only: allPatterns_associations)
  then obtain c where "GetConfig_loop env zeroConfig ?as = (c, Some err)"
    by (cases "GetConfig_loop env zeroConfig ?as") simp
  with assms(1-3) show ?thesis
    by (simp add: GetConfig_def)
qed

lemma decodeItems_ok:
  "list_all isScalar items \<Longrightarrow> list_all (\<lambda>t. leaf t = Inr (g t)) (scalarTexts items) \<Longrightarrow>
     decodeItems leaf items = Inr (map g (scalarTexts items))"
  by (induction leaf items rule: decodeItems.induct) simp_all

lemma decodeNamesRE_ok:
  "wfField wfNamesRE n \<Longrightarrow> list_all (\<lambda>t. leaf t = Inr (g t)) (namesTexts n) \<Longrightarrow>
     decodeField (decodeNamesRE leaf) [] n = Inr (map g (namesTexts n))"
proof (cases n)
  case None
  then show ?thesis by simp
next
  case (Some m)
  assume "wfField wfNamesRE n" "list_all (\<lambda>t. leaf t = Inr (g t)) (namesTexts n)"
  with Some show ?thesis
    by (cases m) (simp_all add: decodeItems_ok)
qed

lemma decodeFilterRule_ok:
  "wfField wfFilterRule f \<Longrightarrow>
   list_all (\<lambda>t. leaf t = Inr (g t)) (namesTexts (ruleNode f ''names_regex'')) \<Longrightarrow>
     decodeField (decodeFilterRule leaf) zeroFilterRule f
       = Inr \<lparr>NamesRE = map g (namesTexts (ruleNode f ''names_regex''))\<rparr>"
proof (cases f)
  case None
  then show ?thesis by (simp add: zeroFilterRule_def)
next
  case (Some m)
  assume "wfField wfFilterRule f"
    "list_all (\<lambda>t. leaf t = Inr (g t)) (namesTexts (ruleNode f ''names_regex''))"
  with Some show ?thesis
    by (cases m) (simp_all add: decodeNamesRE_ok)
qed

lemma decodeResourceType_ok:
  "wfField wfResourceType r \<Longrightarrow>
   list_all (\<lambda>t. leaf t = Inr (g t)) (namesTexts (ruleNode (ruleNode r ''include'') ''names_regex'')) \<Longrightarrow>
   list_all (\<lambda>t. leaf t = Inr (g t)) (namesTexts (ruleNode (ruleNode r ''exclude'') ''names_regex'')) \<Longrightarrow>
     decodeField (decodeResourceType leaf) zeroResourceType r
       = Inr \<lparr>IncludeRule = \<lparr>NamesRE = map g (namesTexts (ruleNode (ruleNode r ''include'') ''names_regex''))\<rparr>,
              ExcludeRule = \<lparr>NamesRE = map g (namesTexts (ruleNode (ruleNode r ''exclude'') ''names_regex''))\<rparr>\<rparr>"
proof (cases r)
  case None
  then show ?thesis by (simp add: zeroResourceType_def zeroFilterRule_def)
next
  case (Some m)
  assume "wfField wfResourceType r"
    "list_all (\<lambda>t. leaf t = Inr (g t)) (namesTexts (ruleNode (ruleNode r ''include'') ''names_regex''))"
    "list_all (\<lambda>t. leaf t = Inr (g t)) (namesTexts (ruleNode (ruleNode r ''exclude'') ''names_regex''))"
  with Some show ?thesis
    by (cases m) (simp_all add: decodeFilterRule_ok)
qed

lemma decodeConfig_ok:
  assumes "wfDocument doc"
    and "\<And>s. list_all (\<lambda>t. leaf t = Inr (g t)) (slotTexts doc s)"
  shows "decodeConfig leaf doc = Inr (mkConfig (\<lambda>s. map g (slotTexts doc s)))"
proof (cases doc)
  case (Mapping kvs)
  from assms(2) [of S3_IncludeRule] assms(2) [of S3_ExcludeRule]
    assms(2) [of IAMUsers_IncludeRule] assms(2) [of IAMUsers_ExcludeRule] assms(1) Mapping
  show ?thesis
    by (simp add: slotTexts_def slotNode_def decodeResourceType_ok mkConfig_def)
qed (use assms(1) in simp_all)

lemma isl_case_Inr:
  "isl (case r of Inl err \<Rightarrow> Inl err | Inr v \<Rightarrow> Inr (h v)) = isl r"
  by (cases r) simp_all

lemma isl_case_Inr2:
  "isl (case r of Inl err \<Rightarrow> Inl err
        | Inr v \<Rightarrow> (case q of Inl err \<Rightarrow> Inl err | Inr w \<Rightarrow> Inr (h v w)))
     = (isl r \<or> isl q)"
  by (cases r; cases q) simp_all

lemma decodeItems_isl:
  "isl (decodeItems leaf items)
     = (\<not> (list_all isScalar items \<and> list_all (\<lambda>t. \<not> isl (leaf t)) (scalarTexts items)))"
  by (induction leaf items rule: decodeItems.induct) (auto split: sum.splits)

lemma decodeNamesRE_isl:
  "isl (decodeField (decodeNamesRE leaf) [] n)
     = (\<not> (wfField wfNamesRE n \<and> list_all (\<lambda>t. \<not> isl (leaf t)) (namesTexts n)))"
proof (cases n)
  case None
  then show ?thesis by simp
next
  case (Some m)
  then show ?thesis by (cases m) (simp_all add: decodeItems_isl)
qed

lemma decodeFilterRule_isl:
  "isl (decodeField (decodeFilterRule leaf) zeroFilterRule f)
     = (\<not> (wfField wfFilterRule f
            \<and> list_all (\<lambda>t. \<not> isl (leaf t)) (namesTexts (ruleNode f ''names_regex''))))"
proof (cases f)
  case None
  then show ?thesis by simp
next
  case (Some m)
  show ?thesis
  proof (cases m)
    case (Mapping kvs)
    with Some show ?thesis
      by (simp add: isl_case_Inr decodeNamesRE_isl)
  qed (use Some in simp_all)
qed

lemma decodeResourceType_isl:
  "isl (decodeField (decodeResourceType leaf) zeroResourceType r)
     = (\<not> (wfField wfResourceType r
            \<and> list_all (\<lambda>t. \<not> isl (leaf t))
                 (namesTexts (ruleNode (ruleNode r ''include'') ''names_regex''))
            \<and> list_all (\<lambda>t. \<not> isl (leaf t))
                 (namesTexts (ruleNode (ruleNode r ''exclude'') ''names_regex''))))"
proof (cases r)
  case None
  then show ?thesis by simp
next
  case (Some m)
  show ?thesis
  proof (cases m)
    case (Mapping kvs)
    with Some show ?thesis
      by (auto simp: isl_case_Inr2 decodeFilterRule_isl)
  qed (use Some in simp_all)
qed

lemma all_slots:
  "(\<forall>s. P s) = (P S3_IncludeRule \<and> P S3_ExcludeRule \<and> P IAMUsers_IncludeRule \<and> P IAMUsers_ExcludeRule)"
proof
  assume r: "P S3_IncludeRule \<and> P S3_ExcludeRule \<and> P IAMUsers_IncludeRule \<and> P IAMUsers_ExcludeRule"
  show "\<forall>s. P s"
  proof
    fix s from r show "P s" by (cases s) simp_all
  qed
qed simp

lemma decodeConfig_isl:
  "isl (decodeConfig leaf doc)
     = (\<not> (wfDocument doc \<and> (\<forall>s. list_all (\<lambda>t. \<not> isl (leaf t)) (slotTexts doc s))))"
proof (cases doc)
  case (Mapping kvs)
  then show ?thesis
    by (auto simp: isl_case_Inr2 decodeResourceType_isl all_slots slotTexts_def slotNode_def)
qed simp_all

lemma decodeConfig_raw:
  assumes "wfDocument doc"
  shows "decodeConfig Inr doc = Inr (mkConfig (slotTexts doc))"
  using decodeConfig_ok [of doc Inr "\<lambda>t. t"] assms
  by (simp add: list_all_iff)

lemma getSlot_mkConfig: "getSlot (mkConfig f) s = f s"
  by (cases s) (simp_all add: mkConfig_def)

lemma allPatterns_mkConfig:
  "list_all P (allPatterns (mkConfig f)) = (\<forall>s. list_all P (f s))"
  by (simp add: allPatterns_def mkConfig_def all_slots)

text \<open>
  Claim C5. When the file is read and unmarshalled and one of the strings in its four
  rule slots fails to compile, \<open>GetConfig\<close> returns a nil \<open>*Config\<close> together with
  an error, and the error is the one \<open>regexp.Compile\<close> returned for a pattern of the
  file. The configuration with the patterns compiled so far is not returned.
\<close>

theorem GetConfig_bad_pattern:
  assumes "filepath_Abs env filePath = Inr absolutePath"
    and "ioutil_ReadFile env absolutePath = Inr yamlFile"
    and "yaml_Unmarshal env Inr yamlFile = Inr rawConfig"
    and "\<exists>pattern \<in> set (allPatterns rawConfig). isl (regexp_Compile env pattern)"
  shows "\<exists>err. GetConfig env filePath = (None, Some err)
           \<and> (\<exists>pattern \<in> set (allPatterns rawConfig). regexp_Compile env pattern = Inl err)"
proof -
  from assms(4) have "\<not> list_all (compiles env) (allPatterns rawConfig)"
    by (auto simp: list_all_iff compiles_def)
  then obtain err where err: "firstError env (allPatterns rawConfig) = Some err"
    by (auto simp: firstError_None_iff [symmetric])
  from GetConfig_unmarshalled_error [OF assms(1-3) err] firstError_Some [OF err]
  show ?thesis by blast
qed

theorem GetConfig_bad_pattern_witness:
  "GetConfig demo_env ''bad.yaml'' = (None, Some (Error ''error parsing regexp''))"
proof -
  let ?raw = "mkConfig (\<lambda>s. if s = S3_IncludeRule then [''prod-'']
                 else if s = IAMUsers_ExcludeRule then [''test-'', ''(''] else [])"
  have a: "filepath_Abs demo_env ''bad.yaml'' = Inr ''/work/bad.yaml''"
    by (simp add: demo_env_def demo_Abs_def)
  have r: "ioutil_ReadFile demo_env ''/work/bad.yaml'' = Inr bad_yaml"
    by (simp add: demo_env_def demo_ReadFile_def)
  have ne: "bad_yaml \<noteq> valid_yaml"
    by (simp add: bad_yaml_def valid_yaml_def text_lines_def)
  have u: "yaml_Unmarshal demo_env Inr bad_yaml = Inr ?raw"
    using ne by (simp add: yaml_Unmarshal_def demo_env_def demo_parse_def bad_doc_def mkConfig_def
        zeroResourceType_def zeroFilterRule_def)
  have b: "\<exists>pattern \<in> set (allPatterns ?raw). isl (regexp_Compile demo_env pattern)"
    by (simp add: allPatterns_def mkConfig_def demo_env_def lit_compile_def metachars_def)
  from GetConfig_bad_pattern [OF a r u b]
  show ?thesis
    by (auto simp: allPatterns_def mkConfig_def demo_env_def lit_compile_def metachars_def
        split: if_splits)
qed

section \<open>Omitted sections\<close>

lemma GetConfig_wellformed:
  assumes "filepath_Abs env filePath = Inr absolutePath"
    and "ioutil_ReadFile env absolutePath = Inr yamlFile"
    and "yaml_parse env yamlFile = Inr doc"
    and "wfDocument doc"
    and "\<forall>s. list_all (compiles env) (slotTexts doc s)"
  shows "GetConfig env filePath
           = (Some (mkConfig (\<lambda>s. map (compiled env) (slotTexts doc s))), None)"
proof -
  have u: "yaml_Unmarshal env Inr yamlFile = Inr (mkConfig (slotTexts doc))"
    using assms(3,4) by (simp add: yaml_Unmarshal_def decodeConfig_raw)
  have ok: "list_all (compiles env) (allPatterns (mkConfig (slotTexts doc)))"
    using assms(5) by (simp add: allPatterns_mkConfig)
  from GetConfig_unmarshalled_ok [OF assms(1,2) u ok] show ?thesis
    by (simp add: getSlot_mkConfig)
qed

lemma slotOmitted_texts: "slotOmitted doc s \<Longrightarrow> slotTexts doc s = []"
  by (simp add: slotOmitted_def slotTexts_def)

text \<open>
  Claim C6. For a well-formed input file (a document of the shape of the input format,
  all of whose pattern texts compile), \<open>GetConfig\<close> succeeds, and every rule slot
  whose category key, \<open>include\<close> or \<open>exclude\<close> key, or \<open>names_regex\<close> key is omitted
  holds the empty pattern list in the returned configuration.
\<close>

theorem GetConfig_omitted_sections:
  assumes "filepath_Abs env filePath = Inr absolutePath"
    and "ioutil_ReadFile env absolutePath = Inr yamlFile"
    and "yaml_parse env yamlFile = Inr doc"
    and "wfDocument doc"
    and "\<forall>s. list_all (compiles env) (slotTexts doc s)"
  shows "\<exists>configObj. GetConfig env filePath = (Some configObj, None)
           \<and> (\<forall>s. slotOmitted doc s \<longrightarrow> getSlot configObj s = [])"
  using GetConfig_wellformed [OF assms]
  by (simp add: getSlot_mkConfig slotOmitted_texts)

theorem GetConfig_omitted_sections_witness:
  "\<exists>configObj. GetConfig demo_env ''valid.yaml'' = (Some configObj, None)
      \<and> getSlot configObj S3_ExcludeRule = []
      \<and> getSlot configObj IAMUsers_IncludeRule = []"
proof -
  have a: "filepath_Abs demo_env ''valid.yaml'' = Inr ''/work/valid.yaml''"
    by (simp add: demo_env_def demo_Abs_def)
  have r: "ioutil_ReadFile demo_env ''/work/valid.yaml'' = Inr valid_yaml"
    by (simp add: demo_env_def demo_ReadFile_def)
  have p: "yaml_parse demo_env valid_yaml = Inr valid_doc"
    by (simp add: demo_env_def demo_parse_def)
  have w: "wfDocument valid_doc"
    by (simp add: valid_doc_def)
  have c: "\<forall>s. list_all (compiles demo_env) (slotTexts valid_doc s)"
    by (simp add: all_slots slotTexts_def slotNode_def valid_doc_def compiles_def demo_env_def
        lit_compile_def metachars_def)
  have o: "slotOmitted valid_doc S3_ExcludeRule" "slotOmitted valid_doc IAMUsers_IncludeRule"
    by (simp_all add: slotOmitted_def slotNode_def valid_doc_def)
  from GetConfig_omitted_sections [OF a r p w c] o show ?thesis
    by blast
qed

section \<open>Loading the same content twice\<close>







section \<open>The two loaders compared\<close>

lemma UnmarshalText_plain:
  assumes "yaml_Unmarshal_string env t = Inr t"
  shows "UnmarshalText env t
           = (case regexp_Compile env t of Inl err \<Rightarrow> Inl err | Inr re \<Rightarrow> Inr \<lparr>RE = re\<rparr>)"
  by (simp add: UnmarshalText_def assms)

text \<open>
  Where the two loaders agree: on a file all of whose pattern texts, decoded as YAML
  documents of their own, give back the text itself, both loaders fail, or both
  succeed with the same compiled expressions in every slot.
\<close>

lemma loaders_agree_when_texts_reparse:
  assumes "filepath_Abs env filePath = Inr absolutePath"
    and "ioutil_ReadFile env absolutePath = Inr yamlFile"
    and "yaml_parse env yamlFile = Inr doc"
    and "\<forall>s. list_all (\<lambda>t. yaml_Unmarshal_string env t = Inr t) (slotTexts doc s)"
  shows "(\<exists>err1 err2. GetConfig env filePath = (None, Some err1)
            \<and> GetConfig_UnmarshalText env filePath = (None, Some err2))
       \<or> (\<exists>config1 config2. GetConfig env filePath = (Some config1, None)
            \<and> GetConfig_UnmarshalText env filePath = (Some config2, None)
            \<and> (\<forall>s. getSlot config1 s = map RE (getSlot config2 s)))"
proof -
  let ?leaf = "UnmarshalText env"
  have plain: "UnmarshalText env t
                 = (case regexp_Compile env t of Inl err \<Rightarrow> Inl err | Inr re \<Rightarrow> Inr \<lparr>RE = re\<rparr>)"
    if "t \<in> set (slotTexts doc s)" for t s
    using assms(4) that by (auto simp: list_all_iff intro: UnmarshalText_plain)
  have two: "GetConfig_UnmarshalText env filePath
               = (case decodeConfig ?leaf doc of Inl err \<Rightarrow> (None, Some err)
                  | Inr c \<Rightarrow> (Some c, None))"
    using assms(1-3) by (simp add: GetConfig_UnmarshalText_def yaml_Unmarshal_def)
  show ?thesis
  proof (cases "wfDocument doc")
    case False
    then have "isl (decodeConfig Inr doc :: error + string Config)" "isl (decodeConfig ?leaf doc)"
      by (simp_all add: decodeConfig_isl)
    then obtain e1 e2 where "(decodeConfig Inr doc :: error + string Config) = Inl e1"
      "decodeConfig ?leaf doc = Inl e2"
      by (auto simp: isl_def)
    with assms(1-3) two show ?thesis
      by (simp add: GetConfig_def yaml_Unmarshal_def)
  next
    case wf: True
    have u: "yaml_Unmarshal env Inr yamlFile = Inr (mkConfig (slotTexts doc))"
      using assms(3) wf by (simp add: yaml_Unmarshal_def decodeConfig_raw)
    show ?thesis
    proof (cases "\<forall>s. list_all (compiles env) (slotTexts doc s)")
      case True
      have "list_all (\<lambda>t. ?leaf t = Inr \<lparr>RE = compiled env t\<rparr>) (slotTexts doc s)" for s
        unfolding list_all_iff
      proof
        fix t
        assume t: "t \<in> set (slotTexts doc s)"
        with True have "compiles env t"
          by (auto simp: list_all_iff)
        then obtain re where "regexp_Compile env t = Inr re"
          by (cases "regexp_Compile env t") (simp_all add: compiles_def)
        with plain [OF t] show "?leaf t = Inr \<lparr>RE = compiled env t\<rparr>"
          by (simp add: compiled_def)
      qed
      from decodeConfig_ok [OF wf this]
      have d2: "decodeConfig ?leaf doc
                  = Inr (mkConfig (\<lambda>s. map (\<lambda>t. \<lparr>RE = compiled env t\<rparr>) (slotTexts doc s)))" .
      from GetConfig_wellformed [OF assms(1-3) wf True] two d2 show ?thesis
        by (simp add: getSlot_mkConfig comp_def)
    next
      case False
      then have "\<not> list_all (compiles env) (allPatterns (mkConfig (slotTexts doc)))"
        by (simp add: allPatterns_mkConfig)
      then obtain err where err: "firstError env (allPatterns (mkConfig (slotTexts doc))) = Some err"
        by (auto simp: firstError_None_iff [symmetric])
      from False obtain s t where t: "t \<in> set (slotTexts doc s)" "\<not> compiles env t"
        by (auto simp: list_all_iff)
      with plain [OF t(1)] have "isl (?leaf t)"
        by (auto simp: compiles_def split: sum.splits)
      with t(1) have "\<not> (\<forall>s. list_all (\<lambda>t. \<not> isl (?leaf t)) (slotTexts doc s))"
        by (auto simp: list_all_iff)
      then have "isl (decodeConfig ?leaf doc)"
        by (simp add: decodeConfig_isl)
      then obtain e2 where "decodeConfig ?leaf doc = Inl e2"
        by (auto simp: isl_def)
      with GetConfig_unmarshalled_error [OF assms(1,2) u err] two show ?thesis
        by simp
    qed
  qed
qed

text \<open>
  Claim C9. The claim is that the loader of \<open>config.go\<close> and the loader that compiles
  in \<open>UnmarshalText\<close> are equivalent on identical file content. They are not: on the
  file \<open>quoted.yaml\<close>, whose only pattern is the quoted scalar \<open>"@example"\<close>, the
  loader of \<open>config.go\<close> compiles the text \<open>@example\<close> and returns a configuration,
  while \<open>UnmarshalText\<close> first decodes that text as a YAML document, which fails, and
  the loader returns the error.
\<close>

theorem loaders_diverge_on_quoted_pattern:
  "GetConfig demo_env ''quoted.yaml''
     = (Some \<lparr>S3 = \<lparr>IncludeRule = \<lparr>NamesRE = []\<rparr>, ExcludeRule = \<lparr>NamesRE = []\<rparr>\<rparr>,
               IAMUsers = \<lparr>IncludeRule = \<lparr>NamesRE = []\<rparr>,
                           ExcludeRule = \<lparr>NamesRE = [''@example'']\<rparr>\<rparr>\<rparr>, None)
   \<and> GetConfig_UnmarshalText demo_env ''quoted.yaml''
     = (None, Some (Error ''yaml: found character that cannot start any token''))"
  by code_simp

end
